theory Spec2Isabelle
  imports Main "HOL-Library.Word"
begin

section \<open>The blog module's IBC post packet handlers\<close>

text \<open>
  A shallow embedding of \<^verbatim>\<open>x/blog/keeper/ibc_post.go\<close>: the four methods
  \<^verbatim>\<open>TransmitIbcPostPacket\<close>, \<^verbatim>\<open>OnRecvIbcPostPacket\<close>,
  \<^verbatim>\<open>OnAcknowledgementIbcPostPacket\<close> and \<^verbatim>\<open>OnTimeoutIbcPostPacket\<close>.
  Go strings are byte sequences, so they are \<^typ>\<open>string\<close>; \<^verbatim>\<open>uint64\<close> is
  \<^typ>\<open>64 word\<close>; a returned \<^verbatim>\<open>error\<close> is an \<open>error option\<close> (\<open>None\<close> is
  \<^verbatim>\<open>nil\<close>); a lookup returning \<^verbatim>\<open>(value, found)\<close> is an \<open>option\<close>. The
  \<^verbatim>\<open>sdk.Context\<close> each method receives is passed in and returned updated.
\<close>

subsection \<open>Data\<close>

type_synonym uint64 = "64 word"
type_synonym bytes = "8 word list"

text \<open>The packet payload \<^verbatim>\<open>types.IbcPostPacketData\<close> and the acknowledgement
  \<^verbatim>\<open>types.IbcPostPacketAck\<close>, with the fields the source reads and writes.\<close>

record IbcPostPacketData =
  Title :: string
  Content :: string
  Creator :: string

record IbcPostPacketAck =
  PostID :: string

text \<open>The three stored records. The source's struct literals name the fields
  \<^verbatim>\<open>Creator\<close>, \<^verbatim>\<open>Title\<close>, \<^verbatim>\<open>Content\<close> of a post,
  \<^verbatim>\<open>Creator\<close>, \<^verbatim>\<open>PostID\<close>, \<^verbatim>\<open>Title\<close>, \<^verbatim>\<open>Chain\<close> of a sent post and
  \<^verbatim>\<open>Title\<close>, \<^verbatim>\<open>Creator\<close>, \<^verbatim>\<open>Chain\<close> of a timed-out post. A post also carries
  the identifier its store assigns (the specification's PostRecord has an \<open>id\<close>); a
  struct literal that does not name it leaves it at Go's zero value.\<close>

record Post =
  Id :: uint64
  Creator :: string
  Title :: string
  Content :: string

record SentPost =
  Creator :: string
  PostID :: string
  Title :: string
  Chain :: string

record TimedoutPost =
  Title :: string
  Creator :: string
  Chain :: string

text \<open>The values of the IBC core library that the source handles: the timeout height,
  the packet, a channel end with its counterparty, a capability, and an acknowledgement.
  Of a channel end the source reads the counterparty only.\<close>

record Height =
  RevisionNumber :: uint64
  RevisionHeight :: uint64

record Packet =
  Sequence :: uint64
  SourcePort :: string
  SourceChannel :: string
  DestinationPort :: string
  DestinationChannel :: string
  Data :: bytes
  TimeoutHeight :: Height
  TimeoutTimestamp :: uint64

record Counterparty =
  PortId :: string
  ChannelId :: string

record Channel =
  Counterparty :: Counterparty

record Capability =
  Index :: uint64

text \<open>\<^verbatim>\<open>ack.Response\<close> is an interface value: a result, an error, or \<^verbatim>\<open>nil\<close> when
  the acknowledgement carries neither; the type switch of the source sends the last to its
  \<^verbatim>\<open>default\<close> branch. A result or an error is a pointer that is not nil, as
  decoding an acknowledgement produces it.\<close>

datatype Acknowledgement_Response =
  Acknowledgement_Result bytes
  | Acknowledgement_Error string
  | Response_nil

record Acknowledgement =
  Response :: Acknowledgement_Response

subsection \<open>Errors\<close>

text \<open>The errors the source builds: \<^verbatim>\<open>sdkerrors.Wrap\<close> and \<^verbatim>\<open>sdkerrors.Wrapf\<close> of
  a registered error with a description, and \<^verbatim>\<open>errors.New\<close> of a text.
  \<open>ValidationError\<close> is the specification's name for what a failed payload validation
  returns.\<close>

datatype registered =
  ErrChannelNotFound
  | ErrSequenceSendNotFound
  | ErrChannelCapabilityNotFound
  | ErrJSONMarshal

datatype error =
  Wrap registered string
  | ErrorsNew string
  | ValidationError

subsection \<open>The context: the module's stores and the state of the IBC core\<close>

text \<open>Modelled from the spec: the Post, Sent-Post and Timed-Out-Post stores, whose code
  (the keeper's \<^verbatim>\<open>AppendPost\<close>, \<^verbatim>\<open>AppendSentPost\<close> and \<^verbatim>\<open>AppendTimedoutPost\<close>)
  is not in the source file. The specification describes each as an append-only log
  with store-assigned, increasing keys: a store is its next key and its entries in
  the order they were appended.\<close>

record 'a store =
  Count :: uint64
  Entries :: "(uint64 \<times> 'a) list"

text \<open>The context holds the three stores of the module and, as \<open>IBC\<close>, the state that
  the channel keeper and the capability keeper own; the module reaches that state only
  through those keepers.\<close>

record 'c Context =
  PostStore :: "Post store"
  SentPostStore :: "SentPost store"
  TimedoutPostStore :: "TimedoutPost store"
  IBC :: 'c

text \<open>Modelled from the spec: \<^verbatim>\<open>AppendPost\<close> appends the record to the Post Store under
  a fresh store-assigned id, which it writes into the record and returns.\<close>

definition AppendPost :: "'c Context \<Rightarrow> Post \<Rightarrow> uint64 \<times> 'c Context" where
  "AppendPost ctx post =
     (let s = PostStore ctx; i = Count s
      in (i, ctx\<lparr>PostStore := \<lparr>Count = i + 1, Entries = Entries s @ [(i, post\<lparr>Id := i\<rparr>)]\<rparr>\<rparr>))"

text \<open>Modelled from the spec: \<^verbatim>\<open>AppendSentPost\<close> appends the record to the Sent-Post
  Store under a fresh store-assigned key.\<close>

definition AppendSentPost :: "'c Context \<Rightarrow> SentPost \<Rightarrow> uint64 \<times> 'c Context" where
  "AppendSentPost ctx sentPost =
     (let s = SentPostStore ctx; i = Count s
      in (i, ctx\<lparr>SentPostStore := \<lparr>Count = i + 1, Entries = Entries s @ [(i, sentPost)]\<rparr>\<rparr>))"

text \<open>Modelled from the spec: \<^verbatim>\<open>AppendTimedoutPost\<close> appends the record to the
  Timed-Out-Post Store under a fresh store-assigned key.\<close>

definition AppendTimedoutPost :: "'c Context \<Rightarrow> TimedoutPost \<Rightarrow> uint64 \<times> 'c Context" where
  "AppendTimedoutPost ctx timedoutPost =
     (let s = TimedoutPostStore ctx; i = Count s
      in (i, ctx\<lparr>TimedoutPostStore := \<lparr>Count = i + 1, Entries = Entries s @ [(i, timedoutPost)]\<rparr>\<rparr>))"

subsection \<open>Collaborators\<close>

text \<open>The keeper's two collaborators are interfaces to code outside the module, so the
  model takes their methods as functions on the IBC state. \<^verbatim>\<open>SendPacket\<close> may change
  that state and may fail.\<close>

record 'c ChannelKeeper =
  GetChannel :: "'c \<Rightarrow> string \<Rightarrow> string \<Rightarrow> Channel option"
  GetNextSequenceSend :: "'c \<Rightarrow> string \<Rightarrow> string \<Rightarrow> uint64 option"
  SendPacket :: "'c \<Rightarrow> Capability \<Rightarrow> Packet \<Rightarrow> error option \<times> 'c"

record 'c ScopedKeeper =
  GetCapability :: "'c \<Rightarrow> string \<Rightarrow> Capability option"

record 'c Keeper =
  ChannelKeeper :: "'c ChannelKeeper"
  ScopedKeeper :: "'c ScopedKeeper"

text \<open>The functions of the imported packages \<^verbatim>\<open>types\<close> and \<^verbatim>\<open>host\<close> that the
  source calls and that are defined elsewhere: the payload's \<^verbatim>\<open>GetBytes\<close> (\<open>Inl\<close> holds
  the text of the error it returns, which is all the source reads of it) and
  \<^verbatim>\<open>ValidateBasic\<close>, \<^verbatim>\<open>ModuleCdc.UnmarshalJSON\<close> into an acknowledgement, and
  \<^verbatim>\<open>host.ChannelCapabilityPath\<close>.\<close>

record Imports =
  GetBytes :: "IbcPostPacketData \<Rightarrow> string + bytes"
  ValidateBasic :: "IbcPostPacketData \<Rightarrow> error option"
  UnmarshalJSON :: "bytes \<Rightarrow> error + IbcPostPacketAck"
  ChannelCapabilityPath :: "string \<Rightarrow> string \<Rightarrow> string"

text \<open>Modelled from the spec: the payload's \<^verbatim>\<open>ValidateBasic\<close>, which is not in the
  source file. The specification has it fail with \<open>ValidationError\<close> if the creator or
  the title is empty.\<close>

definition ValidateBasic_spec :: "IbcPostPacketData \<Rightarrow> error option" where
  "ValidateBasic_spec p =
     (if IbcPostPacketData.Creator p = [] \<or> IbcPostPacketData.Title p = []
      then Some ValidationError else None)"

text \<open>\<^verbatim>\<open>channeltypes.NewPacket\<close> stores its arguments in the packet's fields.\<close>

definition NewPacket ::
  "bytes \<Rightarrow> uint64 \<Rightarrow> string \<Rightarrow> string \<Rightarrow> string \<Rightarrow> string \<Rightarrow> Height \<Rightarrow> uint64 \<Rightarrow> Packet" where
  "NewPacket data sequence sourcePort sourceChannel destinationPort destinationChannel
       timeoutHeight timeoutTimestamp =
     \<lparr>Sequence = sequence, SourcePort = sourcePort, SourceChannel = sourceChannel,
      DestinationPort = destinationPort, DestinationChannel = destinationChannel,
      Data = data, TimeoutHeight = timeoutHeight, TimeoutTimestamp = timeoutTimestamp\<rparr>"

text \<open>\<^verbatim>\<open>strconv.FormatUint(id, 10)\<close>: the decimal digits of an unsigned number, most
  significant first, with no sign and no leading zero.\<close>

definition digits :: string where
  "digits = ''0123456789''"

function formatDecimal :: "nat \<Rightarrow> string" where
  "formatDecimal u =
     (if u < 10 then [digits ! u] else formatDecimal (u div 10) @ [digits ! (u mod 10)])"
  by pat_completeness auto
termination
  by (relation "measure (\<lambda>u. u)") auto

declare formatDecimal.simps [simp del]

definition FormatUint10 :: "uint64 \<Rightarrow> string" where
  "FormatUint10 i = formatDecimal (unat i)"

text \<open>Reading a decimal string back, to say what the encoding means.\<close>

definition decimalValue :: "string \<Rightarrow> nat" where
  "decimalValue s = foldl (\<lambda>a c. 10 * a + (of_char c - 48)) 0 s"

subsection \<open>The four methods\<close>

text \<open>Each method has the keeper \<^verbatim>\<open>k\<close> as its receiver. The model passes \<open>k\<close>
  where the method calls a collaborator of the keeper, which only
  \<^verbatim>\<open>TransmitIbcPostPacket\<close> does; the keeper's own \<^verbatim>\<open>AppendPost\<close>,
  \<^verbatim>\<open>AppendSentPost\<close> and \<^verbatim>\<open>AppendTimedoutPost\<close> act on the context.\<close>

text \<open>\<^verbatim>\<open>TransmitIbcPostPacket\<close>: the lookups in the order of the source, each with
  its early return, then the packet handed to \<^verbatim>\<open>SendPacket\<close>, whose error (or
  \<^verbatim>\<open>nil\<close>) is returned as it is.\<close>

definition TransmitIbcPostPacket ::
  "'c Keeper \<Rightarrow> Imports \<Rightarrow> 'c Context \<Rightarrow> IbcPostPacketData \<Rightarrow> string \<Rightarrow> string \<Rightarrow> Height \<Rightarrow> uint64
     \<Rightarrow> error option \<times> 'c Context" where
  "TransmitIbcPostPacket k im ctx packetData sourcePort sourceChannel timeoutHeight timeoutTimestamp =
     (case GetChannel (ChannelKeeper k) (IBC ctx) sourcePort sourceChannel of
        None \<Rightarrow>
          (Some (Wrap ErrChannelNotFound
             (''port ID ('' @ sourcePort @ '') channel ID ('' @ sourceChannel @ '')'')), ctx)
      | Some sourceChannelEnd \<Rightarrow>
          let destinationPort = PortId (Counterparty sourceChannelEnd);
              destinationChannel = ChannelId (Counterparty sourceChannelEnd)
          in (case GetNextSequenceSend (ChannelKeeper k) (IBC ctx) sourcePort sourceChannel of
                None \<Rightarrow>
                  (Some (Wrap ErrSequenceSendNotFound
                     (''source port: '' @ sourcePort @ '', source channel: '' @ sourceChannel)), ctx)
              | Some sequence \<Rightarrow>
                  (case GetCapability (ScopedKeeper k) (IBC ctx)
                          (ChannelCapabilityPath im sourcePort sourceChannel) of
                     None \<Rightarrow>
                       (Some (Wrap ErrChannelCapabilityNotFound
                          ''module does not own channel capability''), ctx)
                   | Some channelCap \<Rightarrow>
                       (case GetBytes im packetData of
                          Inl msg \<Rightarrow>
                            (Some (Wrap ErrJSONMarshal (''cannot marshal the packet: '' @ msg)), ctx)
                        | Inr packetBytes \<Rightarrow>
                            let packet = NewPacket packetBytes sequence sourcePort sourceChannel
                                  destinationPort destinationChannel timeoutHeight timeoutTimestamp
                            in (case SendPacket (ChannelKeeper k) (IBC ctx) channelCap packet of
                                  (Some err, ibc) \<Rightarrow> (Some err, ctx\<lparr>IBC := ibc\<rparr>)
                                | (None, ibc) \<Rightarrow> (None, ctx\<lparr>IBC := ibc\<rparr>))))))"

text \<open>\<^verbatim>\<open>OnRecvIbcPostPacket\<close> returns the pair \<^verbatim>\<open>(packetAck, err)\<close>; \<^verbatim>\<open>packetAck\<close>
  is a named result, so it starts as the zero value.\<close>

definition OnRecvIbcPostPacket ::
  "Imports \<Rightarrow> 'c Context \<Rightarrow> Packet \<Rightarrow> IbcPostPacketData
     \<Rightarrow> (IbcPostPacketAck \<times> error option) \<times> 'c Context" where
  "OnRecvIbcPostPacket im ctx packet data =
     (let packetAck = \<lparr>IbcPostPacketAck.PostID = []\<rparr>
      in (case ValidateBasic im data of
            Some err \<Rightarrow> ((packetAck, Some err), ctx)
          | None \<Rightarrow>
              (case AppendPost ctx
                      \<lparr>Id = 0,
                       Post.Creator = SourcePort packet @ ''-'' @ SourceChannel packet @ ''-''
                                        @ IbcPostPacketData.Creator data,
                       Post.Title = IbcPostPacketData.Title data,
                       Post.Content = IbcPostPacketData.Content data\<rparr> of
                 (i, ctx') \<Rightarrow>
                   ((packetAck\<lparr>IbcPostPacketAck.PostID := FormatUint10 i\<rparr>, None), ctx'))))"

text \<open>\<^verbatim>\<open>OnAcknowledgementIbcPostPacket\<close>: the type switch on \<^verbatim>\<open>ack.Response\<close>.\<close>

definition OnAcknowledgementIbcPostPacket ::
  "Imports \<Rightarrow> 'c Context \<Rightarrow> Packet \<Rightarrow> IbcPostPacketData \<Rightarrow> Acknowledgement
     \<Rightarrow> error option \<times> 'c Context" where
  "OnAcknowledgementIbcPostPacket im ctx packet data ack =
     (case Response ack of
        Acknowledgement_Error dispatchedError \<Rightarrow> (None, ctx)
      | Acknowledgement_Result dispatchedResult \<Rightarrow>
          (case UnmarshalJSON im dispatchedResult of
             Inl err \<Rightarrow> (Some (ErrorsNew ''cannot unmarshal acknowledgment''), ctx)
           | Inr packetAck \<Rightarrow>
               (None,
                snd (AppendSentPost ctx
                       \<lparr>SentPost.Creator = IbcPostPacketData.Creator data,
                        SentPost.PostID = IbcPostPacketAck.PostID packetAck,
                        SentPost.Title = IbcPostPacketData.Title data,
                        SentPost.Chain = DestinationPort packet @ ''-'' @ DestinationChannel packet\<rparr>)))
      | Response_nil \<Rightarrow>
          (Some (ErrorsNew
             ''the counter-party module does not implement the correct acknowledgment format''),
           ctx))"

text \<open>\<^verbatim>\<open>OnTimeoutIbcPostPacket\<close>.\<close>

definition OnTimeoutIbcPostPacket ::
  "'c Context \<Rightarrow> Packet \<Rightarrow> IbcPostPacketData \<Rightarrow> error option \<times> 'c Context" where
  "OnTimeoutIbcPostPacket ctx packet data =
     (None,
      snd (AppendTimedoutPost ctx
             \<lparr>TimedoutPost.Title = IbcPostPacketData.Title data,
              TimedoutPost.Creator = IbcPostPacketData.Creator data,
              TimedoutPost.Chain = DestinationPort packet @ ''-'' @ DestinationChannel packet\<rparr>))"

subsection \<open>Calling the two reconcilers in sequence\<close>

text \<open>A call of one of the two reconcilers for a fixed packet, and a run of such calls, each
  on the context the previous one left. The error a call returns is dropped, as the
  context it leaves is all the next call sees.\<close>

datatype reconcilerCall = AckCall Acknowledgement | TimeoutCall

definition reconcile ::
  "Imports \<Rightarrow> Packet \<Rightarrow> IbcPostPacketData \<Rightarrow> 'c Context \<Rightarrow> reconcilerCall \<Rightarrow> 'c Context" where
  "reconcile im packet data ctx c =
     (case c of
        AckCall ack \<Rightarrow> snd (OnAcknowledgementIbcPostPacket im ctx packet data ack)
      | TimeoutCall \<Rightarrow> snd (OnTimeoutIbcPostPacket ctx packet data))"

definition reconcileAll ::
  "Imports \<Rightarrow> Packet \<Rightarrow> IbcPostPacketData \<Rightarrow> 'c Context \<Rightarrow> reconcilerCall list \<Rightarrow> 'c Context" where
  "reconcileAll im packet data ctx calls = foldl (reconcile im packet data) ctx calls"

text \<open>The calls that write: an acknowledgement whose result decodes, and a timeout.\<close>

definition decodes :: "Imports \<Rightarrow> reconcilerCall \<Rightarrow> bool" where
  "decodes im c =
     (case c of
        AckCall ack \<Rightarrow>
          (case Response ack of
             Acknowledgement_Result bs \<Rightarrow>
               (case UnmarshalJSON im bs of Inl e \<Rightarrow> False | Inr a \<Rightarrow> True)
           | Acknowledgement_Error m \<Rightarrow> False
           | Response_nil \<Rightarrow> False)
      | TimeoutCall \<Rightarrow> False)"

definition isTimeout :: "reconcilerCall \<Rightarrow> bool" where
  "isTimeout c = (case c of AckCall ack \<Rightarrow> False | TimeoutCall \<Rightarrow> True)"

subsection \<open>A small instance to run the methods on\<close>

text \<open>An IBC state with a table of channels, of send sequences and of capabilities, and a
  queue of sent packets with a capacity; a keeper over it; a codec that refuses a content
  of more than four bytes and reads an acknowledgement as a row of digits.\<close>

record IBCState =
  channels :: "string \<times> string \<Rightarrow> Channel option"
  nextSequenceSend :: "string \<times> string \<Rightarrow> uint64 option"
  capabilities :: "string \<Rightarrow> Capability option"
  capacity :: nat
  sent :: "Packet list"

definition demoKeeper :: "IBCState Keeper" where
  "demoKeeper =
     \<lparr>ChannelKeeper =
        \<lparr>GetChannel = (\<lambda>ibc portID channelID. channels ibc (portID, channelID)),
         GetNextSequenceSend = (\<lambda>ibc portID channelID. nextSequenceSend ibc (portID, channelID)),
         SendPacket = (\<lambda>ibc channelCap packet.
            if length (sent ibc) < capacity ibc
            then (None, ibc\<lparr>sent := sent ibc @ [packet]\<rparr>)
            else (Some (ErrorsNew ''send queue is full''), ibc))\<rparr>,
      ScopedKeeper = \<lparr>GetCapability = (\<lambda>ibc name. capabilities ibc name)\<rparr>\<rparr>"

definition demoImports :: Imports where
  "demoImports =
     \<lparr>GetBytes = (\<lambda>p. if length (IbcPostPacketData.Content p) \<le> 4
                       then Inr (map of_char (IbcPostPacketData.Content p))
                       else Inl ''content too long''),
      ValidateBasic = ValidateBasic_spec,
      UnmarshalJSON = (\<lambda>bs. if list_all (\<lambda>b. b < 10) bs
                       then Inr \<lparr>IbcPostPacketAck.PostID = map (\<lambda>b. digits ! unat b) bs\<rparr>
                       else Inl (ErrorsNew ''not a digit'')),
      ChannelCapabilityPath = (\<lambda>portID channelID.
         ''capabilities/ports/'' @ portID @ ''/channels/'' @ channelID)\<rparr>"

definition demoIBC :: IBCState where
  "demoIBC =
     \<lparr>channels =
        [(''blog'', ''channel-0'') \<mapsto> \<lparr>Counterparty = \<lparr>PortId = ''post'', ChannelId = ''channel-1''\<rparr>\<rparr>,
         (''blog'', ''channel-5'') \<mapsto> \<lparr>Counterparty = \<lparr>PortId = ''post'', ChannelId = ''channel-6''\<rparr>\<rparr>,
         (''blog'', ''channel-8'') \<mapsto> \<lparr>Counterparty = \<lparr>PortId = ''post'', ChannelId = ''channel-9''\<rparr>\<rparr>],
      nextSequenceSend = [(''blog'', ''channel-0'') \<mapsto> 3, (''blog'', ''channel-8'') \<mapsto> 1],
      capabilities = [''capabilities/ports/blog/channels/channel-0'' \<mapsto> \<lparr>Index = 11\<rparr>],
      capacity = 1,
      sent = []\<rparr>"

definition demoContext :: "IBCState Context" where
  "demoContext =
     \<lparr>PostStore = \<lparr>Count = 0, Entries = []\<rparr>,
      SentPostStore = \<lparr>Count = 0, Entries = []\<rparr>,
      TimedoutPostStore = \<lparr>Count = 0, Entries = []\<rparr>,
      IBC = demoIBC\<rparr>"

definition demoHeight :: Height where
  "demoHeight = \<lparr>RevisionNumber = 0, RevisionHeight = 100\<rparr>"

definition demoPacket :: Packet where
  "demoPacket = NewPacket [] 3 ''post'' ''channel-0'' ''post'' ''channel-1'' demoHeight 0"

definition demoData :: IbcPostPacketData where
  "demoData = \<lparr>IbcPostPacketData.Title = ''Hi'', IbcPostPacketData.Content = ''text'',
                IbcPostPacketData.Creator = ''bob''\<rparr>"

definition aliceData :: IbcPostPacketData where
  "aliceData = \<lparr>IbcPostPacketData.Title = ''T'', IbcPostPacketData.Content = ''C'',
                 IbcPostPacketData.Creator = ''alice''\<rparr>"

definition carolData :: IbcPostPacketData where
  "carolData = \<lparr>IbcPostPacketData.Title = ''X'', IbcPostPacketData.Content = [],
                 IbcPostPacketData.Creator = ''carol''\<rparr>"

definition longData :: IbcPostPacketData where
  "longData = \<lparr>IbcPostPacketData.Title = ''Hi'', IbcPostPacketData.Content = ''a long text'',
                IbcPostPacketData.Creator = ''bob''\<rparr>"

definition emptyData :: IbcPostPacketData where
  "emptyData = \<lparr>IbcPostPacketData.Title = [], IbcPostPacketData.Content = [],
                 IbcPostPacketData.Creator = []\<rparr>"

text \<open>A decoder for acknowledgements in their JSON form, an object with the one field
  \<^verbatim>\<open>postID\<close> holding a string: \<open>ackOpening\<close> is the bytes of the text up to and
  with the quote that opens the string, \<open>ackClosing\<close> the quote that closes it and the
  brace; the string between them is of printable characters with no quote and no backslash.
  \<open>ack7\<close> is the acknowledgement whose result is that object with \<^verbatim>\<open>postID\<close>
  \<^verbatim>\<open>7\<close>.\<close>

definition ackOpening :: bytes where
  "ackOpening = [123, 34, 112, 111, 115, 116, 73, 68, 34, 58, 34]"

definition ackClosing :: bytes where
  "ackClosing = [34, 125]"

definition decodeAck :: "bytes \<Rightarrow> error + IbcPostPacketAck" where
  "decodeAck bs =
     (let n = length bs - length ackOpening - length ackClosing;
          body = take n (drop (length ackOpening) bs)
      in if length ackOpening + length ackClosing \<le> length bs
            \<and> take (length ackOpening) bs = ackOpening
            \<and> drop (length ackOpening + n) bs = ackClosing
            \<and> list_all (\<lambda>b. b \<noteq> 34 \<and> b \<noteq> 92 \<and> 32 \<le> b \<and> b < 127) body
         then Inr \<lparr>IbcPostPacketAck.PostID = map (\<lambda>b. char_of (unat b)) body\<rparr>
         else Inl (ErrorsNew ''invalid character in acknowledgement''))"

definition jsonImports :: Imports where
  "jsonImports = demoImports\<lparr>UnmarshalJSON := decodeAck\<rparr>"

definition ack7 :: Acknowledgement where
  "ack7 = \<lparr>Response = Acknowledgement_Result
                 [123, 34, 112, 111, 115, 116, 73, 68, 34, 58, 34, 55, 34, 125]\<rparr>"

text \<open>A context whose Sent-Post and Timed-Out-Post stores already hold an entry each.\<close>

definition busyContext :: "IBCState Context" where
  "busyContext =
     \<lparr>PostStore = \<lparr>Count = 0, Entries = []\<rparr>,
      SentPostStore =
        \<lparr>Count = 1,
         Entries = [(0, \<lparr>SentPost.Creator = ''ann'', SentPost.PostID = ''3'',
                         SentPost.Title = ''Old'', SentPost.Chain = ''post-channel-1''\<rparr>)]\<rparr>,
      TimedoutPostStore =
        \<lparr>Count = 1,
         Entries = [(0, \<lparr>TimedoutPost.Title = ''Lost'', TimedoutPost.Creator = ''ann'',
                         TimedoutPost.Chain = ''post-channel-1''\<rparr>)]\<rparr>,
      IBC = demoIBC\<rparr>"

section \<open>Properties\<close>

subsection \<open>The decimal encoding\<close>

lemma digits_nth: "d < 10 \<Longrightarrow> of_char (digits ! d) = (48::nat) + d"
proof -
  assume "d < 10"
  then have "d \<in> {0, 1, 2, 3, 4, 5, 6, 7, 8, 9}"
    by auto
  then show ?thesis
    by (auto simp: digits_def)
qed

lemma decimalValue_snoc:
  "decimalValue (s @ [c]) = 10 * decimalValue s + (of_char c - 48)"
  by (simp add: decimalValue_def)

lemma decimalValue_formatDecimal: "decimalValue (formatDecimal u) = u"
proof (induction u rule: formatDecimal.induct)
  case (1 u)
  show ?case
  proof (cases "u < 10")
    case True
    then show ?thesis
      by (subst formatDecimal.simps) (simp add: decimalValue_def digits_nth)
  next
    case False
    then have "decimalValue (formatDecimal (u div 10)) = u div 10"
      using 1 by simp
    with False show ?thesis
      by (subst formatDecimal.simps) (simp add: decimalValue_snoc digits_nth)
  qed
qed

lemma decimalValue_FormatUint10: "decimalValue (FormatUint10 i) = unat i"
  by (simp add: FormatUint10_def decimalValue_formatDecimal)

lemma FormatUint10_zero: "FormatUint10 0 = ''0''"
  by (simp add: FormatUint10_def formatDecimal.simps digits_def)

subsection \<open>What each method returns, branch by branch\<close>

lemma OnRecv_invalid_eq:
  "ValidateBasic im data = Some err \<Longrightarrow>
   OnRecvIbcPostPacket im ctx packet data = ((\<lparr>IbcPostPacketAck.PostID = []\<rparr>, Some err), ctx)"
  by (simp add: OnRecvIbcPostPacket_def)

lemma OnRecv_valid_eq:
  "ValidateBasic im data = None \<Longrightarrow>
   OnRecvIbcPostPacket im ctx packet data =
     ((\<lparr>IbcPostPacketAck.PostID = FormatUint10 (Count (PostStore ctx))\<rparr>, None),
      ctx\<lparr>PostStore :=
        \<lparr>Count = Count (PostStore ctx) + 1,
         Entries = Entries (PostStore ctx) @
           [(Count (PostStore ctx),
             \<lparr>Id = Count (PostStore ctx),
              Post.Creator = SourcePort packet @ ''-'' @ SourceChannel packet @ ''-''
                               @ IbcPostPacketData.Creator data,
              Post.Title = IbcPostPacketData.Title data,
              Post.Content = IbcPostPacketData.Content data\<rparr>)]\<rparr>\<rparr>)"
  by (simp add: OnRecvIbcPostPacket_def AppendPost_def Let_def)

lemma OnTimeout_eq:
  "OnTimeoutIbcPostPacket ctx packet data =
     (None, ctx\<lparr>TimedoutPostStore :=
        \<lparr>Count = Count (TimedoutPostStore ctx) + 1,
         Entries = Entries (TimedoutPostStore ctx) @
           [(Count (TimedoutPostStore ctx),
             \<lparr>TimedoutPost.Title = IbcPostPacketData.Title data,
              TimedoutPost.Creator = IbcPostPacketData.Creator data,
              TimedoutPost.Chain = DestinationPort packet @ ''-'' @ DestinationChannel packet\<rparr>)]\<rparr>\<rparr>)"
  by (simp add: OnTimeoutIbcPostPacket_def AppendTimedoutPost_def Let_def)

lemma OnAck_error_eq:
  "Response ack = Acknowledgement_Error m \<Longrightarrow>
   OnAcknowledgementIbcPostPacket im ctx packet data ack = (None, ctx)"
  by (simp add: OnAcknowledgementIbcPostPacket_def)

lemma OnAck_nil_eq:
  "Response ack = Response_nil \<Longrightarrow>
   OnAcknowledgementIbcPostPacket im ctx packet data ack =
     (Some (ErrorsNew
        ''the counter-party module does not implement the correct acknowledgment format''),
      ctx)"
  by (simp add: OnAcknowledgementIbcPostPacket_def)

lemma OnAck_undecodable_eq:
  "Response ack = Acknowledgement_Result bs \<Longrightarrow> UnmarshalJSON im bs = Inl e \<Longrightarrow>
   OnAcknowledgementIbcPostPacket im ctx packet data ack =
     (Some (ErrorsNew ''cannot unmarshal acknowledgment''), ctx)"
  by (simp add: OnAcknowledgementIbcPostPacket_def)

lemma OnAck_decoded_eq:
  "Response ack = Acknowledgement_Result bs \<Longrightarrow> UnmarshalJSON im bs = Inr packetAck \<Longrightarrow>
   OnAcknowledgementIbcPostPacket im ctx packet data ack =
     (None, ctx\<lparr>SentPostStore :=
        \<lparr>Count = Count (SentPostStore ctx) + 1,
         Entries = Entries (SentPostStore ctx) @
           [(Count (SentPostStore ctx),
             \<lparr>SentPost.Creator = IbcPostPacketData.Creator data,
              SentPost.PostID = IbcPostPacketAck.PostID packetAck,
              SentPost.Title = IbcPostPacketData.Title data,
              SentPost.Chain = DestinationPort packet @ ''-'' @ DestinationChannel packet\<rparr>)]\<rparr>\<rparr>)"
  by (simp add: OnAcknowledgementIbcPostPacket_def AppendSentPost_def Let_def)

text \<open>The four ways an acknowledgement can go.\<close>

lemma OnAck_cases:
  obtains (failure) m where "Response ack = Acknowledgement_Error m"
  | (nil) "Response ack = Response_nil"
  | (undecodable) bs e where
      "Response ack = Acknowledgement_Result bs" "UnmarshalJSON im bs = Inl e"
  | (decoded) bs a where
      "Response ack = Acknowledgement_Result bs" "UnmarshalJSON im bs = Inr a"
proof (cases "Response ack")
  case (Acknowledgement_Result bs)
  then show ?thesis
    using undecodable decoded by (cases "UnmarshalJSON im bs") auto
next
  case (Acknowledgement_Error m)
  then show ?thesis
    using failure by simp
next
  case Response_nil
  then show ?thesis
    using nil by simp
qed

subsection \<open>The small instance\<close>

lemma demo_lookups:
  "GetChannel (ChannelKeeper demoKeeper) ibc p c = channels ibc (p, c)"
  "GetNextSequenceSend (ChannelKeeper demoKeeper) ibc p c = nextSequenceSend ibc (p, c)"
  "GetCapability (ScopedKeeper demoKeeper) ibc n = capabilities ibc n"
  "ChannelCapabilityPath demoImports p c = ''capabilities/ports/'' @ p @ ''/channels/'' @ c"
  by (simp_all add: demoKeeper_def demoImports_def)

lemma demo_decode_7:
  "UnmarshalJSON demoImports [7] = Inr \<lparr>IbcPostPacketAck.PostID = ''7''\<rparr>"
  by (simp add: demoImports_def digits_def)

lemma demo_decode_empty:
  "UnmarshalJSON demoImports [] = Inr \<lparr>IbcPostPacketAck.PostID = []\<rparr>"
  by (simp add: demoImports_def)

lemma demo_decode_200:
  "UnmarshalJSON demoImports [200] = Inl (ErrorsNew ''not a digit'')"
  by (simp add: demoImports_def)

lemma ackOpening_text:
  "ackOpening =
     map of_char (''{'' @ [CHR 0x22] @ ''postID'' @ [CHR 0x22] @ '':'' @ [CHR 0x22])"
  by (simp add: ackOpening_def)

lemma ackClosing_text: "ackClosing = map of_char ([CHR 0x22] @ ''}'')"
  by (simp add: ackClosing_def)

lemma char_of_55: "char_of (55::nat) = CHR ''7''"
  by code_simp

lemma json_decode_7:
  "UnmarshalJSON jsonImports [123, 34, 112, 111, 115, 116, 73, 68, 34, 58, 34, 55, 34, 125] =
     Inr \<lparr>IbcPostPacketAck.PostID = ''7''\<rparr>"
  by (simp add: jsonImports_def decodeAck_def ackOpening_def ackClosing_def Let_def char_of_55)

lemma json_decode_bare_7:
  "UnmarshalJSON jsonImports [7] = Inl (ErrorsNew ''invalid character in acknowledgement'')"
  by (simp add: jsonImports_def decodeAck_def ackOpening_def ackClosing_def Let_def)

lemma ack7_decodes: "decodes jsonImports (AckCall ack7)"
  by (simp add: decodes_def ack7_def json_decode_7)

lemma ack7_eq:
  "OnAcknowledgementIbcPostPacket jsonImports ctx packet data ack7 =
     (None, ctx\<lparr>SentPostStore :=
        \<lparr>Count = Count (SentPostStore ctx) + 1,
         Entries = Entries (SentPostStore ctx) @
           [(Count (SentPostStore ctx),
             \<lparr>SentPost.Creator = IbcPostPacketData.Creator data,
              SentPost.PostID = ''7'',
              SentPost.Title = IbcPostPacketData.Title data,
              SentPost.Chain = DestinationPort packet @ ''-'' @ DestinationChannel packet\<rparr>)]\<rparr>\<rparr>)"
  using OnAck_decoded_eq [OF _ json_decode_7, of ack7 ctx packet data]
  by (simp add: ack7_def)

subsection \<open>Runs of reconciler calls\<close>

lemma reconcile_Sent:
  "\<exists>new. Entries (SentPostStore (reconcile im packet data ctx c)) =
           Entries (SentPostStore ctx) @ new \<and>
         length new = (if decodes im c then 1 else 0)"
proof (cases c)
  case (AckCall ack)
  show ?thesis
    by (rule OnAck_cases [where ack = ack and im = im])
       (simp_all add: AckCall reconcile_def decodes_def OnAck_error_eq OnAck_nil_eq
          OnAck_undecodable_eq OnAck_decoded_eq)
next
  case TimeoutCall
  then show ?thesis
    by (simp add: reconcile_def decodes_def OnTimeout_eq)
qed

lemma reconcile_Timedout:
  "\<exists>new. Entries (TimedoutPostStore (reconcile im packet data ctx c)) =
           Entries (TimedoutPostStore ctx) @ new \<and>
         length new = (if isTimeout c then 1 else 0)"
proof (cases c)
  case (AckCall ack)
  show ?thesis
    by (rule OnAck_cases [where ack = ack and im = im])
       (simp_all add: AckCall reconcile_def isTimeout_def OnAck_error_eq OnAck_nil_eq
          OnAck_undecodable_eq OnAck_decoded_eq)
next
  case TimeoutCall
  then show ?thesis
    by (simp add: reconcile_def isTimeout_def OnTimeout_eq)
qed

lemma reconcileAll_Sent:
  "\<exists>new. Entries (SentPostStore (reconcileAll im packet data ctx calls)) =
           Entries (SentPostStore ctx) @ new \<and>
         length new = length (filter (decodes im) calls)"
  unfolding reconcileAll_def
proof (induction calls arbitrary: ctx)
  case Nil
  show ?case by simp
next
  case (Cons c calls)
  obtain one where one:
    "Entries (SentPostStore (reconcile im packet data ctx c)) = Entries (SentPostStore ctx) @ one"
    "length one = (if decodes im c then 1 else 0)"
    using reconcile_Sent [of im packet data ctx c] by blast
  obtain more where more:
    "Entries (SentPostStore (foldl (reconcile im packet data) (reconcile im packet data ctx c) calls)) =
       Entries (SentPostStore (reconcile im packet data ctx c)) @ more"
    "length more = length (filter (decodes im) calls)"
    using Cons.IH [of "reconcile im packet data ctx c"] by blast
  have "Entries (SentPostStore (foldl (reconcile im packet data) ctx (c # calls))) =
      Entries (SentPostStore ctx) @ (one @ more)"
    using one more by simp
  moreover have "length (one @ more) = length (filter (decodes im) (c # calls))"
    using one more by simp
  ultimately show ?case by blast
qed

lemma reconcileAll_Timedout:
  "\<exists>new. Entries (TimedoutPostStore (reconcileAll im packet data ctx calls)) =
           Entries (TimedoutPostStore ctx) @ new \<and>
         length new = length (filter isTimeout calls)"
  unfolding reconcileAll_def
proof (induction calls arbitrary: ctx)
  case Nil
  show ?case by simp
next
  case (Cons c calls)
  obtain one where one:
    "Entries (TimedoutPostStore (reconcile im packet data ctx c)) =
       Entries (TimedoutPostStore ctx) @ one"
    "length one = (if isTimeout c then 1 else 0)"
    using reconcile_Timedout [of im packet data ctx c] by blast
  obtain more where more:
    "Entries (TimedoutPostStore (foldl (reconcile im packet data) (reconcile im packet data ctx c) calls)) =
       Entries (TimedoutPostStore (reconcile im packet data ctx c)) @ more"
    "length more = length (filter isTimeout calls)"
    using Cons.IH [of "reconcile im packet data ctx c"] by blast
  have "Entries (TimedoutPostStore (foldl (reconcile im packet data) ctx (c # calls))) =
      Entries (TimedoutPostStore ctx) @ (one @ more)"
    using one more by simp
  moreover have "length (one @ more) = length (filter isTimeout (c # calls))"
    using one more by simp
  ultimately show ?case by blast
qed

lemma writes_le_calls:
  "length (filter (decodes im) calls) + length (filter isTimeout calls) \<le> length calls"
proof (induction calls)
  case Nil
  show ?case by simp
next
  case (Cons c calls)
  have "\<not> (decodes im c \<and> isTimeout c)"
    by (cases c) (simp_all add: decodes_def isTimeout_def)
  with Cons show ?case by auto
qed

section \<open>The claims\<close>

text \<open>Claim C1. For every packet and payload whose validation succeeds,
  \<^verbatim>\<open>OnRecvIbcPostPacket\<close> returns no error, appends exactly one post to the Post Store,
  whose creator is the packet's source port, \<open>-\<close>, its source channel, \<open>-\<close> and the
  payload's creator, and whose title and content are the payload's, and returns an
  acknowledgement whose \<open>PostID\<close> is the decimal string of the id the store assigned to that
  post. The other stores and the IBC state are as before.\<close>

theorem OnRecv_valid_appends_post:
  assumes "ValidateBasic im data = None"
    and "r = OnRecvIbcPostPacket im ctx packet data"
  shows "snd (fst r) = None \<and>
    (\<exists>i. Entries (PostStore (snd r)) =
            Entries (PostStore ctx) @
              [(i, \<lparr>Id = i,
                    Post.Creator = SourcePort packet @ ''-'' @ SourceChannel packet @ ''-''
                                     @ IbcPostPacketData.Creator data,
                    Post.Title = IbcPostPacketData.Title data,
                    Post.Content = IbcPostPacketData.Content data\<rparr>)] \<and>
          fst (fst r) = \<lparr>IbcPostPacketAck.PostID = FormatUint10 i\<rparr> \<and>
          decimalValue (IbcPostPacketAck.PostID (fst (fst r))) = unat i) \<and>
    SentPostStore (snd r) = SentPostStore ctx \<and>
    TimedoutPostStore (snd r) = TimedoutPostStore ctx \<and>
    IBC (snd r) = IBC ctx"
  using assms by (simp add: OnRecv_valid_eq decimalValue_FormatUint10)

theorem OnRecv_valid_appends_post_witness:
  "OnRecvIbcPostPacket demoImports demoContext demoPacket aliceData =
     ((\<lparr>IbcPostPacketAck.PostID = ''0''\<rparr>, None),
      demoContext\<lparr>PostStore :=
        \<lparr>Count = 1,
         Entries = [(0, \<lparr>Id = 0, Post.Creator = ''post-channel-0-alice'', Post.Title = ''T'',
                         Post.Content = ''C''\<rparr>)]\<rparr>\<rparr>)"
proof -
  have v: "ValidateBasic demoImports aliceData = None"
    by (simp add: demoImports_def ValidateBasic_spec_def aliceData_def)
  have e: "OnRecvIbcPostPacket demoImports demoContext demoPacket aliceData =
     ((\<lparr>IbcPostPacketAck.PostID = ''0''\<rparr>, None),
      demoContext\<lparr>PostStore :=
        \<lparr>Count = 1,
         Entries = [(0, \<lparr>Id = 0, Post.Creator = ''post-channel-0-alice'', Post.Title = ''T'',
                         Post.Content = ''C''\<rparr>)]\<rparr>\<rparr>)"
    by (subst OnRecv_valid_eq [OF v])
       (simp add: FormatUint10_zero demoContext_def demoPacket_def aliceData_def NewPacket_def)
  show ?thesis
    using OnRecv_valid_appends_post [OF v refl, of demoContext demoPacket] e by simp
qed

text \<open>Claim C2, as amended. For a fixed packet and payload and any run of calls of the two
  reconcilers, every call writes on its own, whatever was called before: the Sent-Post
  Store grows by one entry for each acknowledgement call whose result decodes, the
  Timed-Out-Post Store by one entry for each timeout call, and the entries already stored
  are kept. So at most one record is created, and at most once, when the run has at most
  one call; the handlers themselves keep no trace of the packets they have reconciled.\<close>

theorem reconcilers_write_per_call:
  assumes "ctx' = reconcileAll im packet data ctx calls"
  shows "(\<exists>new. Entries (SentPostStore ctx') = Entries (SentPostStore ctx) @ new \<and>
            length new = length (filter (decodes im) calls)) \<and>
    (\<exists>new. Entries (TimedoutPostStore ctx') = Entries (TimedoutPostStore ctx) @ new \<and>
            length new = length (filter isTimeout calls)) \<and>
    (length calls \<le> 1 \<longrightarrow>
       length (Entries (SentPostStore ctx')) + length (Entries (TimedoutPostStore ctx'))
         \<le> length (Entries (SentPostStore ctx)) + length (Entries (TimedoutPostStore ctx)) + 1)"
proof -
  obtain s where s: "Entries (SentPostStore ctx') = Entries (SentPostStore ctx) @ s"
      "length s = length (filter (decodes im) calls)"
    using reconcileAll_Sent [of im packet data ctx calls] assms by blast
  obtain t where t: "Entries (TimedoutPostStore ctx') = Entries (TimedoutPostStore ctx) @ t"
      "length t = length (filter isTimeout calls)"
    using reconcileAll_Timedout [of im packet data ctx calls] assms by blast
  have "length s + length t \<le> length calls"
    using s t writes_le_calls [of im calls] by simp
  then have "length calls \<le> 1 \<longrightarrow>
       length (Entries (SentPostStore ctx')) + length (Entries (TimedoutPostStore ctx'))
         \<le> length (Entries (SentPostStore ctx)) + length (Entries (TimedoutPostStore ctx)) + 1"
    using s t by simp
  with s t show ?thesis by blast
qed

text \<open>On a context whose stores are not empty: one timeout call leaves the sent post that
  was there and adds one timed-out post after the one that was there; and a run of five
  calls for the same packet (a decoded result, an error acknowledgement, a timeout, the
  decoded result again, a timeout again) adds two sent posts and two timed-out posts after
  the old entries, one for each writing call.\<close>

theorem reconcilers_write_per_call_witness:
  "length [TimeoutCall] \<le> 1 \<and>
   Entries (SentPostStore (reconcileAll jsonImports demoPacket demoData busyContext
      [TimeoutCall])) = Entries (SentPostStore busyContext) \<and>
   Entries (TimedoutPostStore (reconcileAll jsonImports demoPacket demoData busyContext
      [TimeoutCall])) =
     Entries (TimedoutPostStore busyContext) @
       [(1, \<lparr>TimedoutPost.Title = ''Hi'', TimedoutPost.Creator = ''bob'',
             TimedoutPost.Chain = ''post-channel-1''\<rparr>)] \<and>
   Entries (SentPostStore (reconcileAll jsonImports demoPacket demoData busyContext
      [AckCall ack7, AckCall \<lparr>Response = Acknowledgement_Error ''rejected''\<rparr>, TimeoutCall,
       AckCall ack7, TimeoutCall])) =
     Entries (SentPostStore busyContext) @
       [(1, \<lparr>SentPost.Creator = ''bob'', SentPost.PostID = ''7'', SentPost.Title = ''Hi'',
             SentPost.Chain = ''post-channel-1''\<rparr>),
        (2, \<lparr>SentPost.Creator = ''bob'', SentPost.PostID = ''7'', SentPost.Title = ''Hi'',
             SentPost.Chain = ''post-channel-1''\<rparr>)] \<and>
   Entries (TimedoutPostStore (reconcileAll jsonImports demoPacket demoData busyContext
      [AckCall ack7, AckCall \<lparr>Response = Acknowledgement_Error ''rejected''\<rparr>, TimeoutCall,
       AckCall ack7, TimeoutCall])) =
     Entries (TimedoutPostStore busyContext) @
       [(1, \<lparr>TimedoutPost.Title = ''Hi'', TimedoutPost.Creator = ''bob'',
             TimedoutPost.Chain = ''post-channel-1''\<rparr>),
        (2, \<lparr>TimedoutPost.Title = ''Hi'', TimedoutPost.Creator = ''bob'',
             TimedoutPost.Chain = ''post-channel-1''\<rparr>)]"
  using
    reconcilers_write_per_call [OF refl, of jsonImports demoPacket demoData busyContext
      "[TimeoutCall]"]
    reconcilers_write_per_call [OF refl, of jsonImports demoPacket demoData busyContext
      "[AckCall ack7, AckCall \<lparr>Response = Acknowledgement_Error ''rejected''\<rparr>, TimeoutCall,
        AckCall ack7, TimeoutCall]"]
  by (simp add: reconcileAll_def reconcile_def OnTimeout_eq ack7_eq OnAck_error_eq
        busyContext_def demoPacket_def demoData_def NewPacket_def)

text \<open>Claim C2 as it is stated fails. After an acknowledgement whose result decodes (the
  JSON object with \<^verbatim>\<open>postID\<close> \<^verbatim>\<open>7\<close>), a timeout for the same packet still writes,
  so both a sent post and a timed-out post exist, the second call's as well as the
  first's; and two timeouts for the same packet leave two timed-out posts.\<close>

theorem both_reconcilers_write:
  "Entries (SentPostStore (reconcileAll jsonImports demoPacket demoData demoContext
      [AckCall ack7, TimeoutCall])) =
     [(0, \<lparr>SentPost.Creator = ''bob'', SentPost.PostID = ''7'', SentPost.Title = ''Hi'',
           SentPost.Chain = ''post-channel-1''\<rparr>)] \<and>
   Entries (TimedoutPostStore (reconcileAll jsonImports demoPacket demoData demoContext
      [AckCall ack7, TimeoutCall])) =
     [(0, \<lparr>TimedoutPost.Title = ''Hi'', TimedoutPost.Creator = ''bob'',
           TimedoutPost.Chain = ''post-channel-1''\<rparr>)] \<and>
   Entries (TimedoutPostStore (reconcileAll jsonImports demoPacket demoData demoContext
      [TimeoutCall, TimeoutCall])) =
     [(0, \<lparr>TimedoutPost.Title = ''Hi'', TimedoutPost.Creator = ''bob'',
           TimedoutPost.Chain = ''post-channel-1''\<rparr>),
      (1, \<lparr>TimedoutPost.Title = ''Hi'', TimedoutPost.Creator = ''bob'',
           TimedoutPost.Chain = ''post-channel-1''\<rparr>)]"
  by (simp add: reconcileAll_def reconcile_def OnTimeout_eq ack7_eq
        demoContext_def demoPacket_def demoData_def NewPacket_def)

text \<open>Claim C3. With the validation the specification describes, for every packet and
  every payload whose creator or title is empty \<^verbatim>\<open>OnRecvIbcPostPacket\<close> returns
  \<open>ValidationError\<close> (with the zero acknowledgement) and leaves the context, and so the
  Post Store, as it was: the validation comes before the append.\<close>

theorem OnRecv_invalid_no_write:
  assumes "ValidateBasic im = ValidateBasic_spec"
    and "IbcPostPacketData.Creator data = [] \<or> IbcPostPacketData.Title data = []"
  shows "OnRecvIbcPostPacket im ctx packet data =
           ((\<lparr>IbcPostPacketAck.PostID = []\<rparr>, Some ValidationError), ctx) \<and>
    length (Entries (PostStore (snd (OnRecvIbcPostPacket im ctx packet data)))) =
      length (Entries (PostStore ctx))"
  using assms by (simp add: OnRecv_invalid_eq ValidateBasic_spec_def)

theorem OnRecv_invalid_no_write_witness:
  "OnRecvIbcPostPacket demoImports demoContext demoPacket
     (aliceData\<lparr>IbcPostPacketData.Creator := []\<rparr>) =
     ((\<lparr>IbcPostPacketAck.PostID = []\<rparr>, Some ValidationError), demoContext) \<and>
   OnRecvIbcPostPacket demoImports demoContext demoPacket
     (aliceData\<lparr>IbcPostPacketData.Title := []\<rparr>) =
     ((\<lparr>IbcPostPacketAck.PostID = []\<rparr>, Some ValidationError), demoContext)"
proof -
  have v: "ValidateBasic demoImports = ValidateBasic_spec"
    by (simp add: demoImports_def)
  show ?thesis
    using OnRecv_invalid_no_write [OF v, of "aliceData\<lparr>IbcPostPacketData.Creator := []\<rparr>"
        demoContext demoPacket]
      OnRecv_invalid_no_write [OF v, of "aliceData\<lparr>IbcPostPacketData.Title := []\<rparr>"
        demoContext demoPacket]
    by simp
qed

text \<open>Claim C4. For every packet, payload and acknowledgement that is a result whose bytes
  decode, \<^verbatim>\<open>OnAcknowledgementIbcPostPacket\<close> returns no error and appends exactly one
  sent post to the Sent-Post Store, with the payload's creator and title, the decoded
  \<open>PostID\<close>, and as chain the packet's destination port, \<open>-\<close> and its destination
  channel. The other stores and the IBC state are as before.\<close>

theorem OnAck_result_appends_sent_post:
  assumes "Response ack = Acknowledgement_Result bs"
    and "UnmarshalJSON im bs = Inr packetAck"
    and "r = OnAcknowledgementIbcPostPacket im ctx packet data ack"
  shows "fst r = None \<and>
    Entries (SentPostStore (snd r)) =
      Entries (SentPostStore ctx) @
        [(Count (SentPostStore ctx),
          \<lparr>SentPost.Creator = IbcPostPacketData.Creator data,
           SentPost.PostID = IbcPostPacketAck.PostID packetAck,
           SentPost.Title = IbcPostPacketData.Title data,
           SentPost.Chain = DestinationPort packet @ ''-'' @ DestinationChannel packet\<rparr>)] \<and>
    PostStore (snd r) = PostStore ctx \<and>
    TimedoutPostStore (snd r) = TimedoutPostStore ctx \<and>
    IBC (snd r) = IBC ctx"
  using assms by (simp add: OnAck_decoded_eq)

theorem OnAck_result_appends_sent_post_witness:
  "fst (OnAcknowledgementIbcPostPacket demoImports demoContext demoPacket demoData
          \<lparr>Response = Acknowledgement_Result [7]\<rparr>) = None \<and>
   Entries (SentPostStore (snd (OnAcknowledgementIbcPostPacket demoImports demoContext demoPacket
          demoData \<lparr>Response = Acknowledgement_Result [7]\<rparr>))) =
     [(0, \<lparr>SentPost.Creator = ''bob'', SentPost.PostID = ''7'', SentPost.Title = ''Hi'',
           SentPost.Chain = ''post-channel-1''\<rparr>)]"
proof -
  have r: "Response \<lparr>Response = Acknowledgement_Result [7]\<rparr> = Acknowledgement_Result [7]"
    by simp
  show ?thesis
    using OnAck_result_appends_sent_post [OF r demo_decode_7 refl, of demoContext demoPacket demoData]
    by (simp add: demoContext_def demoPacket_def demoData_def NewPacket_def)
qed

text \<open>Claim C5. \<^verbatim>\<open>OnAcknowledgementIbcPostPacket\<close> returns an error exactly when the
  acknowledgement is a result whose bytes do not decode, or is neither a result nor an
  error. In the first case the error is \<^verbatim>\<open>cannot unmarshal acknowledgment\<close> (the
  specification's AckDecodeError), in the second the one saying that the counter-party
  does not implement the acknowledgement format (UnsupportedAckFormat). Whenever an error
  is returned the context, and so the Sent-Post Store, is as before.\<close>

theorem OnAck_error_iff:
  assumes "r = OnAcknowledgementIbcPostPacket im ctx packet data ack"
  shows "(fst r \<noteq> None) =
      ((\<exists>bs e. Response ack = Acknowledgement_Result bs \<and> UnmarshalJSON im bs = Inl e) \<or>
       Response ack = Response_nil) \<and>
    ((\<exists>bs e. Response ack = Acknowledgement_Result bs \<and> UnmarshalJSON im bs = Inl e) \<longrightarrow>
       fst r = Some (ErrorsNew ''cannot unmarshal acknowledgment'')) \<and>
    (Response ack = Response_nil \<longrightarrow>
       fst r = Some (ErrorsNew
         ''the counter-party module does not implement the correct acknowledgment format'')) \<and>
    (fst r \<noteq> None \<longrightarrow> snd r = ctx)"
  unfolding assms
  by (rule OnAck_cases [where ack = ack and im = im])
     (simp_all add: OnAck_error_eq OnAck_nil_eq OnAck_undecodable_eq OnAck_decoded_eq)

theorem OnAck_error_iff_witness:
  "OnAcknowledgementIbcPostPacket demoImports demoContext demoPacket demoData
      \<lparr>Response = Acknowledgement_Result [200]\<rparr> =
     (Some (ErrorsNew ''cannot unmarshal acknowledgment''), demoContext) \<and>
   OnAcknowledgementIbcPostPacket demoImports demoContext demoPacket demoData
      \<lparr>Response = Response_nil\<rparr> =
     (Some (ErrorsNew
        ''the counter-party module does not implement the correct acknowledgment format''),
      demoContext)"
  using demo_decode_200
    OnAck_error_iff [OF refl, of demoImports demoContext demoPacket demoData
      "\<lparr>Response = Acknowledgement_Result [200]\<rparr>"]
    OnAck_error_iff [OF refl, of demoImports demoContext demoPacket demoData
      "\<lparr>Response = Response_nil\<rparr>"]
  by (simp add: prod_eq_iff)

text \<open>Claim C6. For every packet and payload \<^verbatim>\<open>OnTimeoutIbcPostPacket\<close> returns no
  error and appends exactly one timed-out post to the Timed-Out-Post Store, with the
  payload's creator and title and as chain the packet's destination port, \<open>-\<close> and its
  destination channel; the Post Store, the Sent-Post Store and the IBC state are as
  before.\<close>

theorem OnTimeout_appends_timedout_post:
  "fst (OnTimeoutIbcPostPacket ctx packet data) = None \<and>
   Entries (TimedoutPostStore (snd (OnTimeoutIbcPostPacket ctx packet data))) =
     Entries (TimedoutPostStore ctx) @
       [(Count (TimedoutPostStore ctx),
         \<lparr>TimedoutPost.Title = IbcPostPacketData.Title data,
          TimedoutPost.Creator = IbcPostPacketData.Creator data,
          TimedoutPost.Chain = DestinationPort packet @ ''-'' @ DestinationChannel packet\<rparr>)] \<and>
   PostStore (snd (OnTimeoutIbcPostPacket ctx packet data)) = PostStore ctx \<and>
   SentPostStore (snd (OnTimeoutIbcPostPacket ctx packet data)) = SentPostStore ctx \<and>
   IBC (snd (OnTimeoutIbcPostPacket ctx packet data)) = IBC ctx"
  by (simp add: OnTimeout_eq)

theorem OnTimeout_appends_timedout_post_witness:
  "fst (OnTimeoutIbcPostPacket demoContext (demoPacket\<lparr>DestinationChannel := ''channel-2''\<rparr>)
          carolData) = None \<and>
   Entries (TimedoutPostStore (snd (OnTimeoutIbcPostPacket demoContext
          (demoPacket\<lparr>DestinationChannel := ''channel-2''\<rparr>) carolData))) =
     [(0, \<lparr>TimedoutPost.Title = ''X'', TimedoutPost.Creator = ''carol'',
           TimedoutPost.Chain = ''post-channel-2''\<rparr>)]"
  using OnTimeout_appends_timedout_post [of demoContext
      "demoPacket\<lparr>DestinationChannel := ''channel-2''\<rparr>" carolData]
  by (simp add: demoContext_def demoPacket_def carolData_def NewPacket_def)

text \<open>Claim C7. \<^verbatim>\<open>TransmitIbcPostPacket\<close> fails with the wrapped
  \<^verbatim>\<open>ErrChannelNotFound\<close> when there is no channel for the source port and channel;
  otherwise with the wrapped \<^verbatim>\<open>ErrSequenceSendNotFound\<close> when there is no next send
  sequence; otherwise with the wrapped \<^verbatim>\<open>ErrChannelCapabilityNotFound\<close> when the
  capability is not held; otherwise with the wrapped \<^verbatim>\<open>ErrJSONMarshal\<close> when the payload
  does not serialise; otherwise it returns what \<^verbatim>\<open>SendPacket\<close> returns for the packet,
  unchanged. Each case depends on the earlier lookups only, which is the order of the
  checks.\<close>

theorem Transmit_error_order:
  assumes "r = fst (TransmitIbcPostPacket k im ctx packetData sourcePort sourceChannel
                      timeoutHeight timeoutTimestamp)"
  shows
   "(GetChannel (ChannelKeeper k) (IBC ctx) sourcePort sourceChannel = None \<longrightarrow>
       r = Some (Wrap ErrChannelNotFound
             (''port ID ('' @ sourcePort @ '') channel ID ('' @ sourceChannel @ '')''))) \<and>
    (\<forall>ch. GetChannel (ChannelKeeper k) (IBC ctx) sourcePort sourceChannel = Some ch \<longrightarrow>
       GetNextSequenceSend (ChannelKeeper k) (IBC ctx) sourcePort sourceChannel = None \<longrightarrow>
       r = Some (Wrap ErrSequenceSendNotFound
             (''source port: '' @ sourcePort @ '', source channel: '' @ sourceChannel))) \<and>
    (\<forall>ch sequence.
       GetChannel (ChannelKeeper k) (IBC ctx) sourcePort sourceChannel = Some ch \<longrightarrow>
       GetNextSequenceSend (ChannelKeeper k) (IBC ctx) sourcePort sourceChannel = Some sequence \<longrightarrow>
       GetCapability (ScopedKeeper k) (IBC ctx) (ChannelCapabilityPath im sourcePort sourceChannel)
         = None \<longrightarrow>
       r = Some (Wrap ErrChannelCapabilityNotFound ''module does not own channel capability'')) \<and>
    (\<forall>ch sequence channelCap msg.
       GetChannel (ChannelKeeper k) (IBC ctx) sourcePort sourceChannel = Some ch \<longrightarrow>
       GetNextSequenceSend (ChannelKeeper k) (IBC ctx) sourcePort sourceChannel = Some sequence \<longrightarrow>
       GetCapability (ScopedKeeper k) (IBC ctx) (ChannelCapabilityPath im sourcePort sourceChannel)
         = Some channelCap \<longrightarrow>
       GetBytes im packetData = Inl msg \<longrightarrow>
       r = Some (Wrap ErrJSONMarshal (''cannot marshal the packet: '' @ msg))) \<and>
    (\<forall>ch sequence channelCap packetBytes.
       GetChannel (ChannelKeeper k) (IBC ctx) sourcePort sourceChannel = Some ch \<longrightarrow>
       GetNextSequenceSend (ChannelKeeper k) (IBC ctx) sourcePort sourceChannel = Some sequence \<longrightarrow>
       GetCapability (ScopedKeeper k) (IBC ctx) (ChannelCapabilityPath im sourcePort sourceChannel)
         = Some channelCap \<longrightarrow>
       GetBytes im packetData = Inr packetBytes \<longrightarrow>
       r = fst (SendPacket (ChannelKeeper k) (IBC ctx) channelCap
                 (NewPacket packetBytes sequence sourcePort sourceChannel
                    (PortId (Counterparty ch)) (ChannelId (Counterparty ch))
                    timeoutHeight timeoutTimestamp)))"
  using assms
  by (simp add: TransmitIbcPostPacket_def Let_def split: option.splits sum.splits prod.splits)

theorem Transmit_error_order_witness:
  "fst (TransmitIbcPostPacket demoKeeper demoImports demoContext longData ''blog'' ''channel-9''
          demoHeight 0) =
     Some (Wrap ErrChannelNotFound ''port ID (blog) channel ID (channel-9)'') \<and>
   fst (TransmitIbcPostPacket demoKeeper demoImports demoContext longData ''blog'' ''channel-5''
          demoHeight 0) =
     Some (Wrap ErrSequenceSendNotFound ''source port: blog, source channel: channel-5'') \<and>
   fst (TransmitIbcPostPacket demoKeeper demoImports demoContext longData ''blog'' ''channel-8''
          demoHeight 0) =
     Some (Wrap ErrChannelCapabilityNotFound ''module does not own channel capability'') \<and>
   fst (TransmitIbcPostPacket demoKeeper demoImports demoContext longData ''blog'' ''channel-0''
          demoHeight 0) =
     Some (Wrap ErrJSONMarshal ''cannot marshal the packet: content too long'') \<and>
   fst (TransmitIbcPostPacket demoKeeper demoImports (demoContext\<lparr>IBC := demoIBC\<lparr>capacity := 0\<rparr>\<rparr>)
          demoData ''blog'' ''channel-0'' demoHeight 0) =
     Some (ErrorsNew ''send queue is full'') \<and>
   fst (TransmitIbcPostPacket demoKeeper demoImports demoContext demoData ''blog'' ''channel-0''
          demoHeight 0) = None"
  using
    Transmit_error_order [OF refl, of demoKeeper demoContext "''blog''" "''channel-9''"
      demoImports longData demoHeight 0]
    Transmit_error_order [OF refl, of demoKeeper demoContext "''blog''" "''channel-5''"
      demoImports longData demoHeight 0]
    Transmit_error_order [OF refl, of demoKeeper demoContext "''blog''" "''channel-8''"
      demoImports longData demoHeight 0]
    Transmit_error_order [OF refl, of demoKeeper demoContext "''blog''" "''channel-0''"
      demoImports longData demoHeight 0]
    Transmit_error_order [OF refl, of demoKeeper "demoContext\<lparr>IBC := demoIBC\<lparr>capacity := 0\<rparr>\<rparr>"
      "''blog''" "''channel-0''" demoImports demoData demoHeight 0]
    Transmit_error_order [OF refl, of demoKeeper demoContext "''blog''" "''channel-0''"
      demoImports demoData demoHeight 0]
  by (simp add: demo_lookups demoContext_def demoIBC_def demoImports_def demoKeeper_def
        longData_def demoData_def)

text \<open>Claim C8. For every call of \<^verbatim>\<open>TransmitIbcPostPacket\<close> with a channel found, a
  next send sequence found and the capability held, the Post, Sent-Post and Timed-Out-Post
  stores are as before; and when the payload serialises, what is returned is what
  \<^verbatim>\<open>SendPacket\<close> does with a packet whose source port and channel are the caller's,
  whose destination port and channel are the channel's counterparty, whose sequence is the
  next send sequence found, whose timeout height and timestamp are the caller's, and whose
  data are the payload's bytes.\<close>

theorem Transmit_frame_and_packet:
  assumes "GetChannel (ChannelKeeper k) (IBC ctx) sourcePort sourceChannel = Some ch"
    and "GetNextSequenceSend (ChannelKeeper k) (IBC ctx) sourcePort sourceChannel = Some sequence"
    and "GetCapability (ScopedKeeper k) (IBC ctx) (ChannelCapabilityPath im sourcePort sourceChannel)
           = Some channelCap"
    and "r = TransmitIbcPostPacket k im ctx packetData sourcePort sourceChannel
               timeoutHeight timeoutTimestamp"
  shows "PostStore (snd r) = PostStore ctx \<and>
    SentPostStore (snd r) = SentPostStore ctx \<and>
    TimedoutPostStore (snd r) = TimedoutPostStore ctx \<and>
    (\<forall>packetBytes. GetBytes im packetData = Inr packetBytes \<longrightarrow>
       (\<exists>packet.
          r = (fst (SendPacket (ChannelKeeper k) (IBC ctx) channelCap packet),
               ctx\<lparr>IBC := snd (SendPacket (ChannelKeeper k) (IBC ctx) channelCap packet)\<rparr>) \<and>
          SourcePort packet = sourcePort \<and>
          SourceChannel packet = sourceChannel \<and>
          DestinationPort packet = PortId (Counterparty ch) \<and>
          DestinationChannel packet = ChannelId (Counterparty ch) \<and>
          Sequence packet = sequence \<and>
          TimeoutHeight packet = timeoutHeight \<and>
          TimeoutTimestamp packet = timeoutTimestamp \<and>
          Data packet = packetBytes))"
proof -
  have stores: "PostStore (snd r) = PostStore ctx \<and> SentPostStore (snd r) = SentPostStore ctx \<and>
      TimedoutPostStore (snd r) = TimedoutPostStore ctx"
    using assms
    by (simp add: TransmitIbcPostPacket_def Let_def split: sum.splits prod.splits option.splits)
  have handed: "\<exists>packet.
          r = (fst (SendPacket (ChannelKeeper k) (IBC ctx) channelCap packet),
               ctx\<lparr>IBC := snd (SendPacket (ChannelKeeper k) (IBC ctx) channelCap packet)\<rparr>) \<and>
          SourcePort packet = sourcePort \<and>
          SourceChannel packet = sourceChannel \<and>
          DestinationPort packet = PortId (Counterparty ch) \<and>
          DestinationChannel packet = ChannelId (Counterparty ch) \<and>
          Sequence packet = sequence \<and>
          TimeoutHeight packet = timeoutHeight \<and>
          TimeoutTimestamp packet = timeoutTimestamp \<and>
          Data packet = packetBytes"
    if enc: "GetBytes im packetData = Inr packetBytes" for packetBytes
  proof -
    let ?p = "NewPacket packetBytes sequence sourcePort sourceChannel
                (PortId (Counterparty ch)) (ChannelId (Counterparty ch))
                timeoutHeight timeoutTimestamp"
    have "r = (fst (SendPacket (ChannelKeeper k) (IBC ctx) channelCap ?p),
               ctx\<lparr>IBC := snd (SendPacket (ChannelKeeper k) (IBC ctx) channelCap ?p)\<rparr>)"
      using assms enc
      by (simp add: TransmitIbcPostPacket_def Let_def split: prod.splits option.splits)
    moreover have "SourcePort ?p = sourcePort \<and> SourceChannel ?p = sourceChannel \<and>
        DestinationPort ?p = PortId (Counterparty ch) \<and>
        DestinationChannel ?p = ChannelId (Counterparty ch) \<and>
        Sequence ?p = sequence \<and> TimeoutHeight ?p = timeoutHeight \<and>
        TimeoutTimestamp ?p = timeoutTimestamp \<and> Data ?p = packetBytes"
      by (simp add: NewPacket_def)
    ultimately show ?thesis by blast
  qed
  from stores handed show ?thesis by blast
qed

theorem Transmit_frame_and_packet_witness:
  "TransmitIbcPostPacket demoKeeper demoImports demoContext demoData ''blog'' ''channel-0''
     demoHeight 0 =
     (None,
      demoContext\<lparr>IBC := demoIBC\<lparr>sent :=
        [\<lparr>Sequence = 3, SourcePort = ''blog'', SourceChannel = ''channel-0'',
          DestinationPort = ''post'', DestinationChannel = ''channel-1'',
          Data = map of_char ''text'', TimeoutHeight = demoHeight, TimeoutTimestamp = 0\<rparr>]\<rparr>\<rparr>)"
proof -
  have c: "GetChannel (ChannelKeeper demoKeeper) (IBC demoContext) ''blog'' ''channel-0'' =
      Some \<lparr>Counterparty = \<lparr>PortId = ''post'', ChannelId = ''channel-1''\<rparr>\<rparr>"
    by (simp add: demo_lookups demoContext_def demoIBC_def)
  have s: "GetNextSequenceSend (ChannelKeeper demoKeeper) (IBC demoContext) ''blog'' ''channel-0'' =
      Some 3"
    by (simp add: demo_lookups demoContext_def demoIBC_def)
  have p: "GetCapability (ScopedKeeper demoKeeper) (IBC demoContext)
      (ChannelCapabilityPath demoImports ''blog'' ''channel-0'') = Some \<lparr>Index = 11\<rparr>"
    by (simp add: demo_lookups demoContext_def demoIBC_def)
  have b: "GetBytes demoImports demoData = Inr (map of_char ''text'')"
    by (simp add: demoImports_def demoData_def)
  have q: "SendPacket (ChannelKeeper demoKeeper) demoIBC channelCap packet =
      (None, demoIBC\<lparr>sent := [packet]\<rparr>)" for channelCap packet
    by (simp add: demoKeeper_def demoIBC_def)
  have i: "IBC demoContext = demoIBC"
    by (simp add: demoContext_def)
  obtain packet where
    "TransmitIbcPostPacket demoKeeper demoImports demoContext demoData ''blog'' ''channel-0''
       demoHeight 0 = (None, demoContext\<lparr>IBC := demoIBC\<lparr>sent := [packet]\<rparr>\<rparr>)"
    "SourcePort packet = ''blog''" "SourceChannel packet = ''channel-0''"
    "DestinationPort packet = ''post''" "DestinationChannel packet = ''channel-1''"
    "Sequence packet = 3" "TimeoutHeight packet = demoHeight" "TimeoutTimestamp packet = 0"
    "Data packet = map of_char ''text''"
    using Transmit_frame_and_packet [OF c s p refl, of demoData demoHeight 0] b
    by (auto simp: q i)
  then show ?thesis
    by (cases packet) simp
qed

text \<open>Claim C9. For every packet and payload, \<^verbatim>\<open>OnAcknowledgementIbcPostPacket\<close> called
  with an error acknowledgement returns no error and leaves the whole context, and so the
  Sent-Post, Timed-Out-Post and Post stores, as it was.\<close>

theorem OnAck_failure_is_noop:
  assumes "Response ack = Acknowledgement_Error m"
  shows "fst (OnAcknowledgementIbcPostPacket im ctx packet data ack) = None \<and>
    snd (OnAcknowledgementIbcPostPacket im ctx packet data ack) = ctx"
  using assms by (simp add: OnAck_error_eq)

theorem OnAck_failure_is_noop_witness:
  "OnAcknowledgementIbcPostPacket demoImports demoContext demoPacket demoData
      \<lparr>Response = Acknowledgement_Error ''rejected''\<rparr> = (None, demoContext)"
  using OnAck_failure_is_noop [of "\<lparr>Response = Acknowledgement_Error ''rejected''\<rparr>" "''rejected''"
      demoImports demoContext demoPacket demoData]
  by (simp add: prod_eq_iff)

text \<open>Claim C10. \<^verbatim>\<open>OnAcknowledgementIbcPostPacket\<close> checks nothing about what it
  stores: for every result acknowledgement whose bytes decode, also when the decoded
  \<open>PostID\<close>, the payload's creator or the payload's title is empty, it returns no error
  and appends one sent post holding exactly those values.\<close>

theorem OnAck_no_content_validation:
  assumes "Response ack = Acknowledgement_Result bs"
    and "UnmarshalJSON im bs = Inr packetAck"
    and "IbcPostPacketAck.PostID packetAck = [] \<or> IbcPostPacketData.Creator data = [] \<or>
         IbcPostPacketData.Title data = []"
  shows "fst (OnAcknowledgementIbcPostPacket im ctx packet data ack) = None \<and>
    Entries (SentPostStore (snd (OnAcknowledgementIbcPostPacket im ctx packet data ack))) =
      Entries (SentPostStore ctx) @
        [(Count (SentPostStore ctx),
          \<lparr>SentPost.Creator = IbcPostPacketData.Creator data,
           SentPost.PostID = IbcPostPacketAck.PostID packetAck,
           SentPost.Title = IbcPostPacketData.Title data,
           SentPost.Chain = DestinationPort packet @ ''-'' @ DestinationChannel packet\<rparr>)]"
  using assms by (simp add: OnAck_decoded_eq)

theorem OnAck_no_content_validation_witness:
  "fst (OnAcknowledgementIbcPostPacket demoImports demoContext demoPacket emptyData
          \<lparr>Response = Acknowledgement_Result []\<rparr>) = None \<and>
   Entries (SentPostStore (snd (OnAcknowledgementIbcPostPacket demoImports demoContext demoPacket
          emptyData \<lparr>Response = Acknowledgement_Result []\<rparr>))) =
     [(0, \<lparr>SentPost.Creator = [], SentPost.PostID = [], SentPost.Title = [],
           SentPost.Chain = ''post-channel-1''\<rparr>)]"
proof -
  have r: "Response \<lparr>Response = Acknowledgement_Result []\<rparr> = Acknowledgement_Result []"
    by simp
  show ?thesis
    using OnAck_no_content_validation [OF r demo_decode_empty, of emptyData demoContext demoPacket]
    by (simp add: demoContext_def demoPacket_def emptyData_def NewPacket_def)
qed

end
